theory Spec2Isabelle
  imports Complex_Main
begin

section \<open>Tensors and floating-point values\<close>

text \<open>
  The module \<^verbatim>\<open>training.py\<close> works on torch tensors laid out as
  (batch, channel, spatial...). A tensor is its shape and its elements by index; the
  spatial axes are a list, so that (batch, classes, D, H, W) is
  \<open>batch = B\<close>, \<open>channels = C\<close>, \<open>spatial = [D, H, W]\<close>.

  Values held by input tensors are finite floats, modelled as reals with exact arithmetic:
  rounding, overflow and signed zeros are outside the model. The values a division can
  add to them (not-a-number, the infinities) are the other constructors of \<open>fl\<close>.
\<close>

record 'a tensor =
  batch :: nat
  channels :: nat
  spatial :: "nat list"
  elem :: "nat \<Rightarrow> nat \<Rightarrow> nat list \<Rightarrow> 'a"

text \<open>An unbatched sample (channel, spatial...), the argument of \<^verbatim>\<open>forward\<close>.\<close>

record 'a sample =
  s_channels :: nat
  s_spatial :: "nat list"
  s_elem :: "nat \<Rightarrow> nat list \<Rightarrow> 'a"

datatype fl = NaN | PInf | NInf | Fin real

datatype error = KeyError string | AssertionError | RuntimeError | ValueError

text \<open>All index tuples of a shape, in row-major order.\<close>

fun indices :: "nat list \<Rightarrow> nat list list" where
  "indices [] = [[]]"
| "indices (n # ns) = concat (map (\<lambda>i. map ((#) i) (indices ns)) [0..<n])"

text \<open>An elementwise operation (\<^verbatim>\<open>torch.sigmoid\<close>, \<^verbatim>\<open>.long()\<close>, \<^verbatim>\<open>torch.nan_to_num\<close>).\<close>

definition tmap :: "('a \<Rightarrow> 'b) \<Rightarrow> 'a tensor \<Rightarrow> 'b tensor" where
  "tmap f t =
     \<lparr>batch = batch t, channels = channels t, spatial = spatial t,
      elem = (\<lambda>b c ix. f (elem t b c ix))\<rparr>"

text \<open>\<^verbatim>\<open>t.size()\<close>, as far as two tensors are compared by it.\<close>

definition tshape :: "'a tensor \<Rightarrow> nat \<times> nat \<times> nat list" where
  "tshape t = (batch t, channels t, spatial t)"

text \<open>All elements of a tensor, in row-major order.\<close>

definition entries :: "'a tensor \<Rightarrow> 'a list" where
  "entries t =
     concat (map (\<lambda>b. concat (map (\<lambda>c. map (elem t b c) (indices (spatial t)))
       [0..<channels t])) [0..<batch t])"

text \<open>\<^verbatim>\<open>image.unsqueeze(0)\<close>: a leading axis of length one.\<close>

definition unsqueeze0 :: "'a sample \<Rightarrow> 'a tensor" where
  "unsqueeze0 img =
     \<lparr>batch = 1, channels = s_channels img, spatial = s_spatial img,
      elem = (\<lambda>b c ix. s_elem img c ix)\<rparr>"


text \<open>\<^verbatim>\<open>.long()\<close> truncates towards zero.\<close>

definition long :: "real \<Rightarrow> int" where
  "long x = (if 0 \<le> x then \<lfloor>x\<rfloor> else \<lceil>x\<rceil>)"

text \<open>Float division of two finite values: 0/0 is not-a-number, x/0 is an infinity.\<close>

definition fdiv :: "real \<Rightarrow> real \<Rightarrow> fl" where
  "fdiv a b =
     (if b = 0 then (if a = 0 then NaN else if 0 < a then PInf else NInf)
      else Fin (a / b))"

text \<open>The largest finite 32-bit float.\<close>

definition float_max :: real where
  "float_max = (2 - 1 / 2 ^ 23) * 2 ^ 127"

text \<open>\<^verbatim>\<open>torch.nan_to_num\<close> with its defaults: not-a-number becomes zero, an infinity
  the largest finite value of its sign. Its result holds finite values only.\<close>

fun nan_to_num :: "fl \<Rightarrow> real" where
  "nan_to_num NaN = 0"
| "nan_to_num PInf = float_max"
| "nan_to_num NInf = - float_max"
| "nan_to_num (Fin r) = r"

text \<open>\<^verbatim>\<open>torch.mean\<close> over all elements; the mean of no element is 0/0.\<close>

definition mean :: "real tensor \<Rightarrow> fl" where
  "mean t = fdiv (sum_list (entries t)) (real (length (entries t)))"

text \<open>
  \<^verbatim>\<open>torch.sigmoid\<close> is a parameter \<open>sigmoid\<close> of the functions below: on floats it is
  the logistic function rounded, and which values it reaches exactly depends on that
  rounding. The instance used at concrete inputs is the logistic function where it is
  evaluated exactly, and the saturated values 1.0 (at 100 and above, where
  \<open>1 + exp (-x)\<close> rounds to 1) and 0.0 (at -1000 and below, where \<open>exp (-x)\<close>
  overflows) that both float widths produce.
\<close>

definition saturating_sigmoid :: "real \<Rightarrow> real" where
  "saturating_sigmoid x =
     (if x \<le> - 1000 then 0 else if 100 \<le> x then 1 else 1 / (1 + exp (- x)))"

section \<open>The library functions of the Dice metric\<close>

text \<open>
  \<^verbatim>\<open>monai.networks.one_hot(labels, num_classes)\<close> along axis 1: the channel axis of
  the labels must have length one (an assertion), the result is a zero tensor with
  \<open>num_classes\<close> channels into which \<^verbatim>\<open>scatter_\<close> writes 1 at channel
  \<open>labels[b, 0, ix]\<close>; an index outside the channel axis is an error of \<^verbatim>\<open>scatter_\<close>.
\<close>

definition scatter_ones :: "int tensor \<Rightarrow> nat \<Rightarrow> real tensor" where
  "scatter_ones labels num_classes =
     \<lparr>batch = batch labels, channels = num_classes, spatial = spatial labels,
      elem = (\<lambda>b c ix. if elem labels b 0 ix = int c then 1 else 0)\<rparr>"

definition one_hot :: "int tensor \<Rightarrow> nat \<Rightarrow> error + real tensor" where
  "one_hot labels num_classes =
     (if channels labels \<noteq> 1 then Inl AssertionError
      else if \<not> list_all (\<lambda>b. list_all (\<lambda>ix.
                 0 \<le> elem labels b 0 ix \<and> elem labels b 0 ix < int num_classes)
               (indices (spatial labels))) [0..<batch labels]
      then Inl RuntimeError
      else Inr (scatter_ones labels num_classes))"

text \<open>\<^verbatim>\<open>t[:, 1:]\<close>: the tensor without its first channel.\<close>

definition drop_channel0 :: "'a tensor \<Rightarrow> 'a tensor" where
  "drop_channel0 t =
     \<lparr>batch = batch t, channels = channels t - 1, spatial = spatial t,
      elem = (\<lambda>b c ix. elem t b (Suc c) ix)\<rparr>"

text \<open>\<^verbatim>\<open>monai.metrics.utils.ignore_background\<close>: the first channel is removed from a
  tensor that has more than one channel.\<close>

definition ignore_background :: "real tensor \<Rightarrow> real tensor \<Rightarrow> real tensor \<times> real tensor" where
  "ignore_background y_pred y =
     (let y' = (if channels y > 1 then drop_channel0 y else y);
          y_pred' = (if channels y_pred > 1 then drop_channel0 y_pred else y_pred)
      in (y_pred', y'))"

text \<open>\<^verbatim>\<open>torch.sum(t, dim=reduce_axis)\<close> over the spatial axes, at one batch and channel.\<close>

definition spatial_sum :: "real tensor \<Rightarrow> nat \<Rightarrow> nat \<Rightarrow> real" where
  "spatial_sum t b c = sum_list (map (elem t b c) (indices (spatial t)))"

text \<open>The elementwise product \<^verbatim>\<open>y * y_pred\<close> of two tensors of one shape.\<close>

definition tmul :: "real tensor \<Rightarrow> real tensor \<Rightarrow> real tensor" where
  "tmul y y_pred =
     \<lparr>batch = batch y, channels = channels y, spatial = spatial y,
      elem = (\<lambda>b c ix. elem y b c ix * elem y_pred b c ix)\<rparr>"

text \<open>
  \<^verbatim>\<open>monai.metrics.meandice.compute_meandice(y_pred, y, include_background)\<close>: the
  tensor of Dice values of shape (batch, channel),
  \<^verbatim>\<open>torch.where(y_o > 0, (2.0 * intersection) / denominator, nan)\<close>; two shapes that
  differ are a \<^verbatim>\<open>ValueError\<close>.
\<close>

definition dice_at :: "real tensor \<Rightarrow> real tensor \<Rightarrow> nat \<Rightarrow> nat \<Rightarrow> fl" where
  "dice_at y_pred y b c =
     (let intersection = spatial_sum (tmul y y_pred) b c;
          y_o = spatial_sum y b c;
          y_pred_o = spatial_sum y_pred b c;
          denominator = y_o + y_pred_o
      in if y_o > 0 then fdiv (2 * intersection) denominator else NaN)"

definition compute_meandice :: "real tensor \<Rightarrow> real tensor \<Rightarrow> bool \<Rightarrow> error + fl tensor" where
  "compute_meandice y_pred y include_background =
     (let (y_pred', y') =
            (if \<not> include_background then ignore_background y_pred y else (y_pred, y))
      in if tshape y' \<noteq> tshape y_pred' then Inl ValueError
         else Inr \<lparr>batch = batch y_pred', channels = channels y_pred', spatial = [],
                   elem = (\<lambda>b c ix. dice_at y_pred' y' b c)\<rparr>)"

section \<open>The Dice metric of the training module\<close>

text \<open>\<^verbatim>\<open>BrainSegmentation3DModel._calculate_dice(preds, target)\<close>.\<close>

definition calculate_dice :: "(real \<Rightarrow> real) \<Rightarrow> real tensor \<Rightarrow> real tensor \<Rightarrow> error + fl" where
  "calculate_dice sigmoid preds target =
     (let num_classes = channels preds;
          preds' = tmap sigmoid preds
      in case one_hot (tmap long target) num_classes of
           Inl e \<Rightarrow> Inl e
         | Inr target' \<Rightarrow>
             (case compute_meandice preds' target' False of
                Inl e \<Rightarrow> Inl e
              | Inr dice_value \<Rightarrow> Inr (mean (tmap nan_to_num dice_value))))"

section \<open>The training module\<close>

text \<open>
  The collaborators of \<^verbatim>\<open>BrainSegmentation3DModel\<close> that are not among the sources
  are parameters: the path resolver, the network (a function on tensors and its
  trainable parameters) and the loss of the library. A network is called in whatever
  mode the training engine has put it.
\<close>

type_synonym paths = "(string \<times> string) list"

record network =
  apply_net :: "real tensor \<Rightarrow> real tensor"
  net_parameters :: "real list"

record 'l collaborators =
  get_train_val_paths ::
    "string \<Rightarrow> string \<Rightarrow> string \<Rightarrow> real \<Rightarrow> int option \<Rightarrow> bool \<Rightarrow> string \<Rightarrow> string
      \<Rightarrow> paths \<times> paths"
  DiceLoss :: "bool \<Rightarrow> bool \<Rightarrow> bool \<Rightarrow> bool \<Rightarrow> real tensor \<Rightarrow> real tensor \<Rightarrow> 'l"
  DenseVNet :: "int \<Rightarrow> int \<Rightarrow> network"

text \<open>
  Modelled from the spec: \<^verbatim>\<open>get_load_transforms\<close> of
  \<^verbatim>\<open>brain_tumor_segmentation.modules.data.utils\<close> is not among the sources. The
  pipeline it returns is the record of its arguments, and loading a mask with it is what
  the specification says of it: "label values are drawn from {1,2,4} remapped to {1,2,3}
  at load time", each original label replaced by the target label at the same position
  of the two lists, any other value kept. The resampling to the spatial size is not
  described further by the specification and is not modelled.
\<close>

record transform_pipeline =
  lt_img_key :: string
  lt_lbl_key :: string
  orig_labels :: "int list"
  target_labels :: "int list"
  lt_spatial_size :: "nat \<times> nat \<times> nat"

definition get_load_transforms ::
  "string \<Rightarrow> string \<Rightarrow> int list \<Rightarrow> int list \<Rightarrow> nat \<times> nat \<times> nat \<Rightarrow> transform_pipeline" where
  "get_load_transforms ik lk orig tgt sz =
     \<lparr>lt_img_key = ik, lt_lbl_key = lk, orig_labels = orig, target_labels = tgt,
      lt_spatial_size = sz\<rparr>"

definition map_label :: "int list \<Rightarrow> int list \<Rightarrow> int \<Rightarrow> int" where
  "map_label orig tgt v = (case map_of (zip orig tgt) v of Some w \<Rightarrow> w | None \<Rightarrow> v)"

type_synonym volume = "int list list list"

definition load_mask :: "transform_pipeline \<Rightarrow> volume \<Rightarrow> volume" where
  "load_mask tr vol = map (map (map (map_label (orig_labels tr) (target_labels tr)))) vol"

text \<open>The label values a volume holds.\<close>

definition voxels :: "volume \<Rightarrow> int set" where
  "voxels vol = set (concat (concat vol))"

text \<open>The arguments of \<^verbatim>\<open>__init__\<close>.\<close>

record init_args =
  dataset_folder :: string
  train_split_percent :: real
  dataset_item_limit :: "int option"
  shuffle_dataset :: bool
  image_pattern :: string
  mask_pattern :: string
  spatial_size :: "nat \<times> nat \<times> nat"
  batch_size_arg :: int
  num_processes_arg :: int
  learning_rate_arg :: real
  in_channels :: int
  out_channels :: int

text \<open>The attributes of a \<^verbatim>\<open>BrainSegmentation3DModel\<close>.\<close>

record 'l brain_segmentation_3d_model =
  hparams :: init_args
  img_key :: string
  lbl_key :: string
  train_paths :: paths
  val_paths :: paths
  load_transform :: transform_pipeline
  batch_size :: int
  num_processes :: int
  learning_rate :: real
  loss :: "real tensor \<Rightarrow> real tensor \<Rightarrow> 'l"
  model :: network

definition init :: "'l collaborators \<Rightarrow> init_args \<Rightarrow> 'l brain_segmentation_3d_model" where
  "init env args =
     (let ik = ''image'';
          lk = ''mask'';
          (tp, vp) = get_train_val_paths env (dataset_folder args) ik lk
                       (train_split_percent args) (dataset_item_limit args)
                       (shuffle_dataset args) (image_pattern args) (mask_pattern args)
      in \<lparr>hparams = args, img_key = ik, lbl_key = lk, train_paths = tp, val_paths = vp,
          load_transform = get_load_transforms ik lk [1, 2, 4] [1, 2, 3] (spatial_size args),
          batch_size = batch_size_arg args,
          num_processes = num_processes_arg args,
          learning_rate = learning_rate_arg args,
          loss = DiceLoss env True True True True,
          model = DenseVNet env (in_channels args) (out_channels args)\<rparr>)"


text \<open>
  \<^verbatim>\<open>self.log\<close> hands an entry to the training engine: the state it changes is the
  list of entries logged so far. A value of a Python dictionary or a log entry is a
  loss, a float or a tensor.
\<close>

datatype 'l pyval = LossVal 'l | FloatVal fl | TensorVal "real tensor"

record 'l log_entry =
  name :: string
  val :: "'l pyval"
  prog_bar :: bool
  logger :: bool
  on_epoch :: bool

definition log_call ::
  "string \<Rightarrow> 'l pyval \<Rightarrow> bool \<Rightarrow> bool \<Rightarrow> bool \<Rightarrow> 'l log_entry list \<Rightarrow> 'l log_entry list" where
  "log_call n v pb lg oe logs =
     logs @ [\<lparr>name = n, val = v, prog_bar = pb, logger = lg, on_epoch = oe\<rparr>]"

text \<open>\<^verbatim>\<open>_log_metrics\<close>.\<close>

definition log_metrics ::
  "(real \<Rightarrow> real) \<Rightarrow> real tensor \<Rightarrow> real tensor \<Rightarrow> string \<Rightarrow> 'l log_entry list
    \<Rightarrow> error + 'l log_entry list" where
  "log_metrics sigmoid preds target prefix logs =
     (case calculate_dice sigmoid preds target of
        Inl e \<Rightarrow> Inl e
      | Inr dice_value \<Rightarrow>
          Inr (log_call (prefix @ ''_dice'') (FloatVal dice_value) True True True logs))"

text \<open>\<^verbatim>\<open>training_step\<close> and \<^verbatim>\<open>validation_step\<close>; a key the batch lacks is a
  \<^verbatim>\<open>KeyError\<close>.\<close>

definition training_step ::
  "(real \<Rightarrow> real) \<Rightarrow> 'l brain_segmentation_3d_model \<Rightarrow> (string \<rightharpoonup> real tensor) \<Rightarrow> int
    \<Rightarrow> 'l log_entry list \<Rightarrow> error + (string \<rightharpoonup> 'l pyval) \<times> 'l log_entry list" where
  "training_step sigmoid self batch_dict batch_id logs =
     (case batch_dict (img_key self) of
        None \<Rightarrow> Inl (KeyError (img_key self))
      | Some img \<Rightarrow>
     (case batch_dict (lbl_key self) of
        None \<Rightarrow> Inl (KeyError (lbl_key self))
      | Some label \<Rightarrow>
     (let result = apply_net (model self) img;
          loss_value = loss self result label;
          logs1 = log_call ''train_loss'' (LossVal loss_value) True True True logs
      in case log_metrics sigmoid result label ''train'' logs1 of
           Inl e \<Rightarrow> Inl e
         | Inr logs2 \<Rightarrow>
             Inr ([''loss'' \<mapsto> LossVal loss_value, ''pred'' \<mapsto> TensorVal result,
                   ''label'' \<mapsto> TensorVal label], logs2))))"

definition validation_step ::
  "(real \<Rightarrow> real) \<Rightarrow> 'l brain_segmentation_3d_model \<Rightarrow> (string \<rightharpoonup> real tensor) \<Rightarrow> int
    \<Rightarrow> 'l log_entry list \<Rightarrow> error + (string \<rightharpoonup> 'l pyval) \<times> 'l log_entry list" where
  "validation_step sigmoid self batch_dict batch_id logs =
     (case batch_dict (img_key self) of
        None \<Rightarrow> Inl (KeyError (img_key self))
      | Some img \<Rightarrow>
     (case batch_dict (lbl_key self) of
        None \<Rightarrow> Inl (KeyError (lbl_key self))
      | Some label \<Rightarrow>
     (let result = apply_net (model self) img;
          loss_value = loss self result label;
          logs1 = log_call ''val_loss'' (LossVal loss_value) True True True logs
      in case log_metrics sigmoid result label ''val'' logs1 of
           Inl e \<Rightarrow> Inl e
         | Inr logs2 \<Rightarrow>
             Inr ([''loss'' \<mapsto> LossVal loss_value, ''pred'' \<mapsto> TensorVal result,
                   ''label'' \<mapsto> TensorVal label], logs2))))"

text \<open>
  \<^verbatim>\<open>BrainSegDataset\<close> and \<^verbatim>\<open>create_data_loader\<close> are not among the sources: an
  object they construct is the record of the arguments it was constructed with. A
  dataset is allocated in a store (the datasets constructed so far) and referred to by
  its address, so that two constructions give two objects.
\<close>

record brain_seg_dataset =
  image_mask_paths :: paths
  load_transforms :: transform_pipeline

type_synonym store = "brain_seg_dataset list"

record data_loader =
  dataset :: nat
  dl_batch_size :: int
  shuffle :: bool
  num_workers :: int

definition BrainSegDataset :: "paths \<Rightarrow> transform_pipeline \<Rightarrow> store \<Rightarrow> nat \<times> store" where
  "BrainSegDataset ps tr st =
     (length st, st @ [\<lparr>image_mask_paths = ps, load_transforms = tr\<rparr>])"

definition create_data_loader :: "nat \<Rightarrow> int \<Rightarrow> bool \<Rightarrow> int \<Rightarrow> data_loader" where
  "create_data_loader ds bs sh nw =
     \<lparr>dataset = ds, dl_batch_size = bs, shuffle = sh, num_workers = nw\<rparr>"

text \<open>\<^verbatim>\<open>train_dataloader\<close> and \<^verbatim>\<open>val_dataloader\<close>.\<close>

definition train_dataloader ::
  "'l brain_segmentation_3d_model \<Rightarrow> store \<Rightarrow> data_loader \<times> store" where
  "train_dataloader self st =
     (let (train_brain_dataset, st') =
            BrainSegDataset (train_paths self) (load_transform self) st;
          train_brain_dataloader =
            create_data_loader train_brain_dataset (batch_size self) True (num_processes self)
      in (train_brain_dataloader, st'))"

definition val_dataloader ::
  "'l brain_segmentation_3d_model \<Rightarrow> store \<Rightarrow> data_loader \<times> store" where
  "val_dataloader self st =
     (let (val_brain_dataset, st') =
            BrainSegDataset (val_paths self) (load_transform self) st;
          val_brain_dataloader =
            create_data_loader val_brain_dataset (batch_size self) False (num_processes self)
      in (val_brain_dataloader, st'))"

text \<open>\<^verbatim>\<open>configure_optimizers\<close>: the optimizer and the scheduler are the records of the
  arguments they are constructed with; \<^verbatim>\<open>self.parameters()\<close> are those of the network.\<close>

datatype optimizer = Adam "real list" real

record reduce_lr_on_plateau =
  sched_optimizer :: optimizer
  factor :: real
  patience :: nat
  mode :: string
  threshold :: real
  verbose :: bool

record lr_scheduler_config =
  scheduler :: reduce_lr_on_plateau
  monitor :: string

record configuration =
  optimizer :: optimizer
  lr_scheduler :: lr_scheduler_config

definition parameters :: "'l brain_segmentation_3d_model \<Rightarrow> real list" where
  "parameters self = net_parameters (model self)"

definition configure_optimizers :: "'l brain_segmentation_3d_model \<Rightarrow> configuration" where
  "configure_optimizers self =
     (let opt = Adam (parameters self) (learning_rate self);
          sch = \<lparr>sched_optimizer = opt, factor = 0.5, patience = 5, mode = ''min'',
                 threshold = 0.001, verbose = True\<rparr>
      in \<lparr>optimizer = opt, lr_scheduler = \<lparr>scheduler = sch, monitor = ''val_loss''\<rparr>\<rparr>)"

section \<open>Notions used to state the properties\<close>

text \<open>The first channel that has an entry in the Dice tensor: \<^verbatim>\<open>ignore_background\<close>
  removes channel 0 of a tensor of more than one channel.\<close>

definition first_kept :: "nat \<Rightarrow> nat" where
  "first_kept n = (if 1 < n then 1 else 0)"

text \<open>The labels of a target are class indices of a prediction of \<open>n\<close> channels.\<close>

definition class_labels :: "real tensor \<Rightarrow> nat \<Rightarrow> bool" where
  "class_labels target n =
     (\<forall>b<batch target. \<forall>ix\<in>set (indices (spatial target)).
        0 \<le> long (elem target b 0 ix) \<and> long (elem target b 0 ix) < int n)"

text \<open>The Dice values that are averaged, by sample and kept class.\<close>

definition dice_values :: "(real \<Rightarrow> real) \<Rightarrow> real tensor \<Rightarrow> real tensor \<Rightarrow> fl list" where
  "dice_values sigmoid preds target =
     concat (map (\<lambda>b. map (\<lambda>c.
         dice_at (tmap sigmoid preds) (scatter_ones (tmap long target) (channels preds)) b c)
       [first_kept (channels preds)..<channels preds]) [0..<batch preds])"

text \<open>The record a step returns, or the error it raises.\<close>

definition returned :: "error + 'a \<times> 'b \<Rightarrow> error + 'a" where
  "returned r = map_sum id fst r"

text \<open>The entries a step has logged, or the error it raises.\<close>

definition logged :: "error + 'a \<times> 'b \<Rightarrow> error + 'b" where
  "logged r = map_sum id snd r"

text \<open>
  The Dice value of a class \<open>c\<close> in a sample \<open>b\<close>, written out on the logits and the
  labels: it reads channel \<open>c\<close> of the prediction and the voxels labelled \<open>c\<close>, and
  nothing of another channel. The foreground entries are those of the classes from 1
  on, after \<^verbatim>\<open>nan_to_num\<close>.
\<close>

definition foreground_entry :: "(real \<Rightarrow> real) \<Rightarrow> real tensor \<Rightarrow> real tensor \<Rightarrow> nat \<Rightarrow> nat \<Rightarrow> fl" where
  "foreground_entry sigmoid preds target b c =
     (let idx = indices (spatial preds);
          y = (\<lambda>ix. if long (elem target b 0 ix) = int c then 1 else 0);
          p = (\<lambda>ix. sigmoid (elem preds b c ix));
          y_o = sum_list (map y idx)
      in if 0 < y_o
         then fdiv (2 * sum_list (map (\<lambda>ix. y ix * p ix) idx)) (y_o + sum_list (map p idx))
         else NaN)"

definition foreground_dice :: "(real \<Rightarrow> real) \<Rightarrow> real tensor \<Rightarrow> real tensor \<Rightarrow> real list" where
  "foreground_dice sigmoid preds target =
     concat (map (\<lambda>b. map (\<lambda>c. nan_to_num (foreground_entry sigmoid preds target b c))
       [1..<channels preds]) [0..<batch preds])"

text \<open>A tensor with other values on channel 0, and the mean of a Dice tensor as
  \<open>calculate_dice\<close> takes it.\<close>

definition with_channel0:: "(nat \<Rightarrow> nat list \<Rightarrow> 'a) \<Rightarrow> 'a tensor \<Rightarrow> 'a tensor" where
  "with_channel0 f t =
     \<lparr>batch = batch t, channels = channels t, spatial = spatial t,
      elem = (\<lambda>b c ix. if c = 0 then f b ix else elem t b c ix)\<rparr>"

definition mean_dice :: "error + fl tensor \<Rightarrow> error + fl" where
  "mean_dice r = map_sum id (\<lambda>d. mean (tmap nan_to_num d)) r"

subsection \<open>The Dice computation in the words of the specification\<close>

text \<open>
  "Apply a sigmoid activation to the logits; expand the integer label volume into one-hot
  form with the same channel count as the prediction; compute the mean Dice overlap
  coefficient per class per sample, excluding the background channel (channel 0);
  replace any not-a-number result with zero; average over all remaining class/sample
  entries to yield one float." The Dice coefficient of two masks is twice their overlap
  over the sum of their sizes, a float ratio.
\<close>

definition spec_one_hot :: "real tensor \<Rightarrow> nat \<Rightarrow> real tensor" where
  "spec_one_hot target n =
     \<lparr>batch = batch target, channels = n, spatial = spatial target,
      elem = (\<lambda>b c ix. if long (elem target b 0 ix) = int c then 1 else 0)\<rparr>"

definition spec_dice_coefficient :: "real tensor \<Rightarrow> real tensor \<Rightarrow> nat \<Rightarrow> nat \<Rightarrow> fl" where
  "spec_dice_coefficient p y b c =
     fdiv (2 * (\<Sum>ix\<leftarrow>indices (spatial p). elem p b c ix * elem y b c ix))
          ((\<Sum>ix\<leftarrow>indices (spatial p). elem p b c ix)
            + (\<Sum>ix\<leftarrow>indices (spatial p). elem y b c ix))"

fun nan_to_zero :: "fl \<Rightarrow> fl" where
  "nan_to_zero NaN = Fin 0"
| "nan_to_zero d = d"

text \<open>Float addition, and the average of a list of floats.\<close>

fun fadd :: "fl \<Rightarrow> fl \<Rightarrow> fl" where
  "fadd (Fin a) (Fin b) = Fin (a + b)"
| "fadd NaN _ = NaN"
| "fadd _ NaN = NaN"
| "fadd PInf NInf = NaN"
| "fadd NInf PInf = NaN"
| "fadd PInf _ = PInf"
| "fadd _ PInf = PInf"
| "fadd NInf _ = NInf"
| "fadd _ NInf = NInf"

definition spec_average :: "fl list \<Rightarrow> fl" where
  "spec_average ds =
     (case foldr fadd ds (Fin 0) of Fin s \<Rightarrow> fdiv s (real (length ds)) | d \<Rightarrow> d)"

definition spec_calculate_dice :: "(real \<Rightarrow> real) \<Rightarrow> real tensor \<Rightarrow> real tensor \<Rightarrow> fl" where
  "spec_calculate_dice sigmoid preds target =
     (let p = tmap sigmoid preds;
          y = spec_one_hot target (channels preds);
          per_class = concat (map (\<lambda>b. map (\<lambda>c. spec_dice_coefficient p y b c)
                        [1..<channels preds]) [0..<batch preds])
      in spec_average (map nan_to_zero per_class))"

subsection \<open>A step in the words of the specification\<close>

text \<open>
  "This computation is invoked identically during both training and validation steps,
  differing only in the logging prefix used": one step, with the prefix as its
  parameter.
\<close>

definition spec_step ::
  "string \<Rightarrow> (real \<Rightarrow> real) \<Rightarrow> 'l brain_segmentation_3d_model \<Rightarrow> (string \<rightharpoonup> real tensor)
    \<Rightarrow> 'l log_entry list \<Rightarrow> error + (string \<rightharpoonup> 'l pyval) \<times> 'l log_entry list" where
  "spec_step prefix sigmoid self batch_dict logs =
     (case batch_dict (img_key self) of
        None \<Rightarrow> Inl (KeyError (img_key self))
      | Some img \<Rightarrow>
     (case batch_dict (lbl_key self) of
        None \<Rightarrow> Inl (KeyError (lbl_key self))
      | Some label \<Rightarrow>
     (let prediction = apply_net (model self) img;
          l = loss self prediction label
      in case calculate_dice sigmoid prediction label of
           Inl e \<Rightarrow> Inl e
         | Inr d \<Rightarrow>
             Inr ([''loss'' \<mapsto> LossVal l, ''pred'' \<mapsto> TensorVal prediction,
                   ''label'' \<mapsto> TensorVal label],
                  logs @ [\<lparr>name = prefix @ ''_loss'', val = LossVal l, prog_bar = True,
                            logger = True, on_epoch = True\<rparr>,
                          \<lparr>name = prefix @ ''_dice'', val = FloatVal d, prog_bar = True,
                            logger = True, on_epoch = True\<rparr>]))))"

subsection \<open>Concrete inputs\<close>

text \<open>One sample of one voxel, as a function of its logits by channel and of its label.\<close>

definition one_voxel :: "nat \<Rightarrow> (nat \<Rightarrow> real) \<Rightarrow> real tensor" where
  "one_voxel n f = \<lparr>batch = 1, channels = n, spatial = [1, 1, 1], elem = (\<lambda>b c ix. f c)\<rparr>"

definition single_channel_logit_0 :: "real tensor" where
  "single_channel_logit_0 = one_voxel 1 (\<lambda>c. 0)"

definition single_channel_logit_100 :: "real tensor" where
  "single_channel_logit_100 = one_voxel 1 (\<lambda>c. 100)"

definition two_channel_logit_0 :: "real tensor" where
  "two_channel_logit_0 = one_voxel 2 (\<lambda>c. 0)"

definition two_channel_logit_100 :: "real tensor" where
  "two_channel_logit_100 = one_voxel 2 (\<lambda>c. 100)"

definition background_logits :: "real tensor" where
  "background_logits = one_voxel 2 (\<lambda>c. if c = 0 then 100 else - 1000)"

definition foreground_logits :: "real tensor" where
  "foreground_logits = one_voxel 2 (\<lambda>c. if c = 1 then 100 else - 1000)"

definition label_0 :: "real tensor" where
  "label_0 = one_voxel 1 (\<lambda>c. 0)"

definition label_1 :: "real tensor" where
  "label_1 = one_voxel 1 (\<lambda>c. 1)"

definition label_5 :: "real tensor" where
  "label_5 = one_voxel 1 (\<lambda>c. 5)"

text \<open>One sample of two voxels: the logit 0 everywhere on two channels, and the labels
  0 and 1.\<close>

definition two_voxel_logits :: "real tensor" where
  "two_voxel_logits = \<lparr>batch = 1, channels = 2, spatial = [1, 1, 2], elem = (\<lambda>b c ix. 0)\<rparr>"

definition two_voxel_labels :: "real tensor" where
  "two_voxel_labels =
     \<lparr>batch = 1, channels = 1, spatial = [1, 1, 2],
      elem = (\<lambda>b c ix. if ix = [0, 0, 1] then 1 else 0)\<rparr>"

text \<open>Collaborators whose network returns the logit 0 on each of its output channels
  whatever its input is, and whose loss is the constant 0.\<close>

definition zero_net :: "int \<Rightarrow> network" where
  "zero_net out =
     \<lparr>apply_net = (\<lambda>t. \<lparr>batch = batch t, channels = nat out, spatial = spatial t,
                          elem = (\<lambda>b c ix. 0)\<rparr>),
      net_parameters = []\<rparr>"

definition test_env :: "real collaborators" where
  "test_env =
     \<lparr>get_train_val_paths = (\<lambda>folder ik lk pc lim sh ip mp.
          ([(''a_flair.nii.gz'', ''a_seg.nii.gz'')], [(''b_flair.nii.gz'', ''b_seg.nii.gz'')])),
      DiceLoss = (\<lambda>to_onehot_y sg jaccard include_background p y. 0),
      DenseVNet = (\<lambda>i out. zero_net out)\<rparr>"

definition test_args :: init_args where
  "test_args =
     \<lparr>dataset_folder = ''data'', train_split_percent = 0.7, dataset_item_limit = Some 1,
      shuffle_dataset = True, image_pattern = ''**/*_flair.nii.gz'',
      mask_pattern = ''**/*_seg.nii.gz'', spatial_size = (196, 196, 128),
      batch_size_arg = 2, num_processes_arg = 1, learning_rate_arg = 0.001,
      in_channels = 1, out_channels = 2\<rparr>"

text \<open>Two more predictions for the two voxels: they differ on channel 0 only.\<close>

definition two_voxel_logits_100 :: "real tensor" where
  "two_voxel_logits_100 =
     \<lparr>batch = 1, channels = 2, spatial = [1, 1, 2], elem = (\<lambda>b c ix. 100)\<rparr>"

definition two_voxel_logits_mixed :: "real tensor" where
  "two_voxel_logits_mixed =
     \<lparr>batch = 1, channels = 2, spatial = [1, 1, 2],
      elem = (\<lambda>b c ix. if c = 0 then 0 else 100)\<rparr>"

text \<open>An unbatched image of one voxel, and two batches for the module built from
  \<open>test_env\<close> and \<open>test_args\<close>: one whose mask holds the class index 1, one whose
  mask holds 5, which is no class index of a prediction of two channels.\<close>

definition one_voxel_image :: "real sample" where
  "one_voxel_image = \<lparr>s_channels = 1, s_spatial = [1, 1, 1], s_elem = (\<lambda>c ix. 0)\<rparr>"

definition test_batch :: "string \<rightharpoonup> real tensor" where
  "test_batch = [''image'' \<mapsto> unsqueeze0 one_voxel_image, ''mask'' \<mapsto> label_1]"

definition bad_batch :: "string \<rightharpoonup> real tensor" where
  "bad_batch = [''image'' \<mapsto> unsqueeze0 one_voxel_image, ''mask'' \<mapsto> label_5]"

section \<open>Evaluation at concrete inputs\<close>

lemmas tensor_eval = tmap_def tshape_def entries_def one_voxel_def long_def fdiv_def
  saturating_sigmoid_def

lemmas dice_eval = calculate_dice_def one_hot_def scatter_ones_def compute_meandice_def
  ignore_background_def drop_channel0_def dice_at_def spatial_sum_def tmul_def mean_def

lemmas spec_eval = spec_calculate_dice_def spec_one_hot_def spec_dice_coefficient_def
  spec_average_def

lemmas inputs = single_channel_logit_0_def single_channel_logit_100_def
  two_channel_logit_0_def two_channel_logit_100_def background_logits_def foreground_logits_def
  label_0_def label_1_def label_5_def two_voxel_logits_def two_voxel_labels_def
  two_voxel_logits_100_def two_voxel_logits_mixed_def

section \<open>The Dice tensor and its average\<close>

lemma spatial_sum_drop: "spatial_sum (drop_channel0 t) b c = spatial_sum t b (Suc c)"
  by (simp add: spatial_sum_def drop_channel0_def)

lemma dice_at_drop: "dice_at (drop_channel0 p) (drop_channel0 y) b c = dice_at p y b (Suc c)"
  by (simp add: dice_at_def spatial_sum_def drop_channel0_def tmul_def)

lemma one_hot_valid:
  assumes "channels target = 1" "class_labels target n"
  shows "one_hot (tmap long target) n = Inr (scatter_ones (tmap long target) n)"
  using assms by (auto simp: one_hot_def class_labels_def tmap_def list_all_iff)

lemma entries_flat:
  "spatial t = [] \<Longrightarrow>
   entries t = concat (map (\<lambda>b. map (\<lambda>c. elem t b c []) [0..<channels t]) [0..<batch t])"
  by (simp add: entries_def)

lemma compute_meandice_kept:
  assumes "tshape y = tshape p"
  shows "compute_meandice p y False =
     Inr \<lparr>batch = batch p, channels = channels p - first_kept (channels p), spatial = [],
          elem = (\<lambda>b c ix. dice_at p y b (c + first_kept (channels p)))\<rparr>"
proof -
  have sel: "\<And>t::real tensor. batch (drop_channel0 t) = batch t \<and>
      channels (drop_channel0 t) = channels t - 1 \<and> spatial (drop_channel0 t) = spatial t"
    by (simp add: drop_channel0_def)
  from assms show ?thesis
    by (simp add: compute_meandice_def ignore_background_def first_kept_def tshape_def
        sel dice_at_drop Let_def)
qed

lemma map_shift_upt:
  assumes "k \<le> n"
  shows "map (\<lambda>c. f (c + k)) [0..<n - k] = map f [k..<n]"
proof -
  have "[k..<n] = map (\<lambda>i. i + k) [0..<n - k]"
    using assms map_add_upt [of k "n - k"] by simp
  then show ?thesis
    by (simp add: comp_def)
qed

text \<open>The Dice tensor that \<open>calculate_dice\<close> averages, for a target of the shape
  (batch, 1, spatial) of the prediction.\<close>

lemma dice_tensor:
  assumes "batch target = batch preds" "channels target = 1" "spatial target = spatial preds"
    and "class_labels target (channels preds)"
  shows "one_hot (tmap long target) (channels preds)
           = Inr (scatter_ones (tmap long target) (channels preds))"
    and "compute_meandice (tmap sigmoid preds)
           (scatter_ones (tmap long target) (channels preds)) False =
         Inr \<lparr>batch = batch preds, channels = channels preds - first_kept (channels preds),
              spatial = [],
              elem = (\<lambda>b c ix. dice_at (tmap sigmoid preds)
                (scatter_ones (tmap long target) (channels preds)) b
                (c + first_kept (channels preds)))\<rparr>"
proof -
  show "one_hot (tmap long target) (channels preds)
           = Inr (scatter_ones (tmap long target) (channels preds))"
    using assms(2,4) by (rule one_hot_valid)
  have sh: "tshape (scatter_ones (tmap long target) (channels preds)) = tshape (tmap sigmoid preds)"
    using assms(1,3) by (simp add: tshape_def scatter_ones_def tmap_def)
  show "compute_meandice (tmap sigmoid preds)
           (scatter_ones (tmap long target) (channels preds)) False =
         Inr \<lparr>batch = batch preds, channels = channels preds - first_kept (channels preds),
              spatial = [],
              elem = (\<lambda>b c ix. dice_at (tmap sigmoid preds)
                (scatter_ones (tmap long target) (channels preds)) b
                (c + first_kept (channels preds)))\<rparr>"
    using compute_meandice_kept [OF sh] by (simp add: tmap_def)
qed

lemma dice_tensor_entries:
  "entries (tmap nan_to_num
       \<lparr>batch = batch preds, channels = channels preds - first_kept (channels preds),
        spatial = [],
        elem = (\<lambda>b c ix. dice_at (tmap sigmoid preds)
           (scatter_ones (tmap long target) (channels preds)) b
           (c + first_kept (channels preds)))\<rparr>)
   = map nan_to_num (dice_values sigmoid preds target)"
proof -
  let ?C = "channels preds"
  let ?P = "tmap sigmoid preds"
  let ?Y = "scatter_ones (tmap long target) ?C"
  have shift: "\<And>b. map (\<lambda>c. nan_to_num (dice_at ?P ?Y b (c + first_kept ?C)))
        [0..<?C - first_kept ?C] =
      map (\<lambda>c. nan_to_num (dice_at ?P ?Y b c)) [first_kept ?C..<?C]"
    by (rule map_shift_upt) (simp add: first_kept_def)
  show ?thesis
    by (simp add: entries_flat dice_values_def map_concat comp_def shift
        tmap_def [of nan_to_num])
qed

lemma calculate_dice_values:
  assumes "batch target = batch preds" "channels target = 1" "spatial target = spatial preds"
    and "class_labels target (channels preds)"
  shows "calculate_dice sigmoid preds target =
     Inr (fdiv (sum_list (map nan_to_num (dice_values sigmoid preds target)))
            (real (length (dice_values sigmoid preds target))))"
  by (simp add: calculate_dice_def dice_tensor [OF assms] mean_def dice_tensor_entries Let_def)

lemma length_dice_values:
  "length (dice_values sigmoid preds target)
     = batch preds * (channels preds - first_kept (channels preds))"
  by (simp add: dice_values_def length_concat comp_def sum_list_triv)

lemma foldr_fadd_Fin: "foldr fadd (map Fin xs) (Fin 0) = Fin (sum_list xs)"
  by (induction xs) simp_all

lemma spec_average_Fin: "spec_average (map Fin xs) = fdiv (sum_list xs) (real (length xs))"
  by (simp add: spec_average_def foldr_fadd_Fin)

lemma sigmoid_nonneg: "0 \<le> saturating_sigmoid x"
  by (simp add: saturating_sigmoid_def add_nonneg_pos less_imp_le)

text \<open>A channel of a one-hot tensor holds zeros and ones; its sum is zero only where
  the class does not occur.\<close>

lemma one_hot_sum_nonneg: "0 \<le> spatial_sum (scatter_ones l n) b c"
  by (auto simp: spatial_sum_def scatter_ones_def intro!: sum_list_nonneg)

lemma one_hot_sum_zero:
  assumes "\<not> 0 < spatial_sum (scatter_ones l n) b c" "ix \<in> set (indices (spatial l))"
  shows "elem (scatter_ones l n) b c ix = 0"
proof -
  let ?ys = "map (elem (scatter_ones l n) b c) (indices (spatial l))"
  have nonneg: "\<And>y. y \<in> set ?ys \<Longrightarrow> 0 \<le> y"
    by (auto simp: scatter_ones_def)
  have "sum_list ?ys = 0"
    using assms(1) one_hot_sum_nonneg [of l n b c]
    by (simp add: spatial_sum_def scatter_ones_def)
  then have "\<forall>y\<in>set ?ys. y = 0"
    using nonneg sum_list_nonneg_eq_0_iff [of ?ys] by blast
  then show ?thesis
    using assms(2) by simp
qed

lemma dice_at_matches_ratio:
  assumes nonneg: "\<forall>x. 0 \<le> sigmoid x"
    and sp: "spatial l = spatial preds"
  shows "nan_to_zero (spec_dice_coefficient (tmap sigmoid preds) (scatter_ones l n) b c)
       = Fin (nan_to_num (dice_at (tmap sigmoid preds) (scatter_ones l n) b c))"
proof -
  let ?P = "tmap sigmoid preds"
  let ?Y = "scatter_ones l n"
  let ?idx = "indices (spatial preds)"
  have spP: "spatial ?P = spatial preds" and spY: "spatial ?Y = spatial preds"
    using sp by (simp_all add: tmap_def scatter_ones_def)
  have inter: "(\<Sum>ix\<leftarrow>?idx. elem ?P b c ix * elem ?Y b c ix) = spatial_sum (tmul ?Y ?P) b c"
    using spY by (simp add: spatial_sum_def tmul_def mult.commute)
  have po: "(\<Sum>ix\<leftarrow>?idx. elem ?P b c ix) = spatial_sum ?P b c"
    using spP by (simp add: spatial_sum_def)
  have yo: "(\<Sum>ix\<leftarrow>?idx. elem ?Y b c ix) = spatial_sum ?Y b c"
    using spY by (simp add: spatial_sum_def)
  have ratio: "spec_dice_coefficient ?P ?Y b c =
      fdiv (2 * spatial_sum (tmul ?Y ?P) b c) (spatial_sum ?P b c + spatial_sum ?Y b c)"
    by (simp add: spec_dice_coefficient_def spP inter po yo)
  have p_nonneg: "0 \<le> spatial_sum ?P b c"
    using nonneg by (auto simp: spatial_sum_def tmap_def intro!: sum_list_nonneg)
  show ?thesis
  proof (cases "0 < spatial_sum ?Y b c")
    case True
    then have "spatial_sum ?P b c + spatial_sum ?Y b c \<noteq> 0"
      using p_nonneg by simp
    then show ?thesis
      using True by (simp add: ratio dice_at_def fdiv_def add.commute Let_def)
  next
    case False
    have zero: "\<And>ix. ix \<in> set ?idx \<Longrightarrow> elem ?Y b c ix = 0"
      using one_hot_sum_zero [OF False] sp by simp
    have prod: "map (\<lambda>ix. elem ?Y b c ix * elem ?P b c ix) ?idx = map (\<lambda>ix. 0) ?idx"
      by (rule map_cong) (simp_all add: zero)
    have "spatial_sum (tmul ?Y ?P) b c
        = sum_list (map (\<lambda>ix. elem ?Y b c ix * elem ?P b c ix) ?idx)"
      using spY by (simp add: spatial_sum_def tmul_def)
    also have "\<dots> = 0"
      by (simp only: prod) simp
    finally have "spatial_sum (tmul ?Y ?P) b c = 0" .
    moreover have "spatial_sum ?Y b c = 0"
      using False one_hot_sum_nonneg [of l n b c] by simp
    ultimately show ?thesis
      using False by (simp add: ratio dice_at_def fdiv_def Let_def)
  qed
qed

lemma length_concat_rows:
  "length (concat (map (\<lambda>b. map (f b) [0..<n]) [0..<m])) = m * n"
  by (simp add: length_concat comp_def sum_list_triv)

lemma nth_concat_rows:
  assumes "b < m" "c < n"
  shows "concat (map (\<lambda>b. map (f b) [0..<n]) [0..<m]) ! (b * n + c) = f b c"
  using assms(1)
proof (induction m)
  case 0
  then show ?case by simp
next
  case (Suc m)
  show ?case
  proof (cases "b < m")
    case True
    then have "b * n + c < m * n"
    proof -
      have "b * n + c < b * n + n" using assms(2) by simp
      also have "\<dots> = Suc b * n" by simp
      also have "\<dots> \<le> m * n" using True by (intro mult_le_mono1) simp
      finally show ?thesis .
    qed
    then show ?thesis
      using Suc.IH [OF True] by (simp add: nth_append length_concat_rows)
  next
    case False
    then have "b = m" using Suc.prems by simp
    then show ?thesis
      using assms(2) by (simp add: nth_append length_concat_rows)
  qed
qed

lemma absent_class_sum:
  assumes "\<forall>ix\<in>set (indices (spatial target)). long (elem target b 0 ix) \<noteq> int c"
  shows "spatial_sum (scatter_ones (tmap long target) n) b c = 0"
proof -
  have "map (elem (scatter_ones (tmap long target) n) b c) (indices (spatial target))
      = map (\<lambda>ix. 0) (indices (spatial target))"
    using assms by (intro map_cong) (simp_all add: scatter_ones_def tmap_def)
  then have "sum_list (map (elem (scatter_ones (tmap long target) n) b c)
      (indices (spatial target))) = 0"
    by (simp only:) simp
  then show ?thesis
    by (simp add: spatial_sum_def scatter_ones_def tmap_def)
qed

lemma dice_at_cong:
  assumes "spatial p' = spatial p" "spatial y = spatial p"
    and "\<forall>ix\<in>set (indices (spatial p)). elem p' b c ix = elem p b c ix"
  shows "dice_at p' y b c = dice_at p y b c"
proof -
  have 1: "map (elem p' b c) (indices (spatial p)) = map (elem p b c) (indices (spatial p))"
    using assms(3) by (intro map_cong) simp_all
  have 2: "map (\<lambda>ix. elem y b c ix * elem p' b c ix) (indices (spatial p))
      = map (\<lambda>ix. elem y b c ix * elem p b c ix) (indices (spatial p))"
    using assms(3) by (intro map_cong) simp_all
  show ?thesis
    by (simp add: dice_at_def spatial_sum_def tmul_def assms(1,2) 1 2)
qed

lemma dice_mean_cong:
  assumes sh: "tshape p' = tshape p" and shy: "tshape y = tshape p"
    and agree: "\<forall>b<batch p. \<forall>c<channels p. \<forall>ix\<in>set (indices (spatial p)).
        elem p' b c ix = elem p b c ix"
  shows "mean (tmap nan_to_num \<lparr>batch = batch p', channels = channels p', spatial = [],
            elem = (\<lambda>b c ix. dice_at p' y b c)\<rparr>)
       = mean (tmap nan_to_num \<lparr>batch = batch p, channels = channels p, spatial = [],
            elem = (\<lambda>b c ix. dice_at p y b c)\<rparr>)"
proof -
  have sel: "batch p' = batch p" "channels p' = channels p" "spatial p' = spatial p"
      "spatial y = spatial p"
    using sh shy by (simp_all add: tshape_def)
  have eq: "dice_at p' y b c = dice_at p y b c" if "b < batch p" "c < channels p" for b c
    using sel(3,4) agree that by (intro dice_at_cong) simp_all
  have row: "map (\<lambda>c. nan_to_num (dice_at p' y b c)) [0..<channels p]
      = map (\<lambda>c. nan_to_num (dice_at p y b c)) [0..<channels p]" if "b < batch p" for b
    by (rule map_cong) (simp_all add: eq that)
  have rows: "map (\<lambda>b. map (\<lambda>c. nan_to_num (dice_at p' y b c)) [0..<channels p]) [0..<batch p]
      = map (\<lambda>b. map (\<lambda>c. nan_to_num (dice_at p y b c)) [0..<channels p]) [0..<batch p]"
    by (rule map_cong) (simp_all add: row)
  have "entries (tmap nan_to_num \<lparr>batch = batch p', channels = channels p', spatial = [],
            elem = (\<lambda>b c ix. dice_at p' y b c)\<rparr>)
       = entries (tmap nan_to_num \<lparr>batch = batch p, channels = channels p, spatial = [],
            elem = (\<lambda>b c ix. dice_at p y b c)\<rparr>)"
    by (simp add: entries_flat tmap_def [of nan_to_num] sel rows)
  then show ?thesis
    by (simp only: mean_def)
qed

lemma perfect_dice:
  assumes sp: "spatial target = spatial preds"
    and perfect: "\<forall>ix\<in>set (indices (spatial preds)).
        sigmoid (elem preds b c ix) = (if long (elem target b 0 ix) = int c then 1 else 0)"
    and present: "\<exists>ix\<in>set (indices (spatial preds)). long (elem target b 0 ix) = int c"
  shows "dice_at (tmap sigmoid preds) (scatter_ones (tmap long target) n) b c = Fin 1"
proof -
  let ?P = "tmap sigmoid preds"
  let ?Y = "scatter_ones (tmap long target) n"
  let ?idx = "indices (spatial preds)"
  have spY: "spatial ?Y = spatial preds" and spP: "spatial ?P = spatial preds"
    using sp by (simp_all add: scatter_ones_def tmap_def)
  have p: "map (elem ?P b c) ?idx = map (elem ?Y b c) ?idx"
    using perfect by (intro map_cong) (simp_all add: scatter_ones_def tmap_def)
  have yp: "map (\<lambda>ix. elem ?Y b c ix * elem ?P b c ix) ?idx = map (elem ?Y b c) ?idx"
    using perfect by (intro map_cong) (simp_all add: scatter_ones_def tmap_def)
  have po: "spatial_sum ?P b c = spatial_sum ?Y b c"
    by (simp add: spatial_sum_def spY spP p)
  have "spatial_sum (tmul ?Y ?P) b c
      = sum_list (map (\<lambda>ix. elem ?Y b c ix * elem ?P b c ix) ?idx)"
    by (simp add: spatial_sum_def tmul_def spY)
  then have inter: "spatial_sum (tmul ?Y ?P) b c = spatial_sum ?Y b c"
    by (simp only: yp) (simp add: spatial_sum_def spY)
  obtain ix where ix: "ix \<in> set ?idx" "long (elem target b 0 ix) = int c"
    using present by blast
  have "elem ?Y b c ix = 1"
    using ix(2) by (simp add: scatter_ones_def tmap_def)
  moreover have "ix \<in> set (indices (spatial (tmap long target)))"
    using ix(1) sp by (simp add: tmap_def)
  ultimately have pos: "0 < spatial_sum ?Y b c"
    using one_hot_sum_zero [of "tmap long target" n b c ix] by fastforce
  show ?thesis
    using pos by (simp add: dice_at_def Let_def inter po fdiv_def)
qed

section \<open>The Dice metric\<close>

text \<open>
  Claim C1, as the code has it. For logits of shape (batch, classes, spatial) with at
  least two classes, a label tensor of shape (batch, 1, spatial) whose labels are class
  indices, and an activation that is never negative (as a sigmoid is),
  \<open>calculate_dice\<close> returns the float the specification describes: the sigmoid of the
  logits, the one-hot form of the labels, the Dice coefficient of every sample and every
  class but channel 0, not-a-number replaced by zero, and the average of these entries.
\<close>

theorem calculate_dice_refines_spec:
  assumes "batch target = batch preds" "channels target = 1" "spatial target = spatial preds"
    and "1 < channels preds"
    and "class_labels target (channels preds)"
    and "\<forall>x. 0 \<le> sigmoid x"
  shows "calculate_dice sigmoid preds target = Inr (spec_calculate_dice sigmoid preds target)"
proof -
  let ?P = "tmap sigmoid preds"
  let ?Y = "scatter_ones (tmap long target) (channels preds)"
  have y: "spec_one_hot target (channels preds) = ?Y"
    by (simp add: spec_one_hot_def scatter_ones_def tmap_def)
  have sp: "spatial (tmap long target) = spatial preds"
    using assms(3) by (simp add: tmap_def)
  have kept: "first_kept (channels preds) = 1"
    using assms(4) by (simp add: first_kept_def)
  let ?ratios = "concat (map (\<lambda>b. map (\<lambda>c. spec_dice_coefficient ?P ?Y b c)
            [1..<channels preds]) [0..<batch preds])"
  let ?vals = "map nan_to_num (dice_values sigmoid preds target)"
  have entrywise: "map nan_to_zero ?ratios = map Fin ?vals"
    by (simp add: dice_values_def kept map_concat comp_def
        dice_at_matches_ratio [OF assms(6) sp])
  have "spec_calculate_dice sigmoid preds target = spec_average (map nan_to_zero ?ratios)"
    by (simp add: spec_calculate_dice_def y Let_def)
  also have "\<dots> = spec_average (map Fin ?vals)"
    by (simp only: entrywise)
  also have "\<dots> = fdiv (sum_list ?vals) (real (length ?vals))"
    by (rule spec_average_Fin)
  finally show ?thesis
    using calculate_dice_values [OF assms(1,2,3,5)] by simp
qed

theorem calculate_dice_refines_spec_witness:
  "calculate_dice saturating_sigmoid two_voxel_logits two_voxel_labels
     = Inr (spec_calculate_dice saturating_sigmoid two_voxel_logits two_voxel_labels)
   \<and> spec_calculate_dice saturating_sigmoid two_voxel_logits two_voxel_labels = Fin (1 / 2)"
proof -
  have shape: "batch two_voxel_labels = batch two_voxel_logits"
      "channels two_voxel_labels = 1" "spatial two_voxel_labels = spatial two_voxel_logits"
      "1 < channels two_voxel_logits"
    by (simp_all add: inputs)
  have labels: "class_labels two_voxel_labels (channels two_voxel_logits)"
    by (simp add: class_labels_def inputs long_def)
  have nonneg: "\<forall>x. 0 \<le> saturating_sigmoid x"
    by (simp add: sigmoid_nonneg)
  have "spec_calculate_dice saturating_sigmoid two_voxel_logits two_voxel_labels = Fin (1 / 2)"
    by (simp add: spec_eval tensor_eval inputs Let_def upt_conv_Cons numeral_2_eq_2)
  then show ?thesis
    using calculate_dice_refines_spec [OF shape labels nonneg] by simp
qed

text \<open>
  Claim C1 as stated fails where the prediction has one channel: \<^verbatim>\<open>ignore_background\<close>
  keeps the only channel, and the code averages the Dice value of channel 0 where the
  description has no entry left to average. It also fails at a label that is no class
  index, where \<^verbatim>\<open>one_hot\<close> raises.
\<close>

theorem calculate_dice_single_class_counterexample:
  "calculate_dice saturating_sigmoid single_channel_logit_0 label_0 = Inr (Fin (2 / 3))
   \<and> spec_calculate_dice saturating_sigmoid single_channel_logit_0 label_0 = NaN
   \<and> calculate_dice saturating_sigmoid two_channel_logit_0 label_5 = Inl RuntimeError
   \<and> spec_calculate_dice saturating_sigmoid two_channel_logit_0 label_5 = Fin 0"
  by (simp add: dice_eval spec_eval tensor_eval inputs Let_def upt_conv_Cons numeral_2_eq_2)

text \<open>
  Claim C2. Take a prediction and a target of the shapes (batch, classes, spatial) and
  (batch, 1, spatial), the labels being class indices, and a sample \<open>b\<close> and a class
  \<open>c\<close> with an entry in the Dice tensor (any class but channel 0 of several, or the only
  channel) that occurs neither in the target nor in the activated prediction of the
  sample. Then the Dice ratio of the class is 0/0, its entry in the tensor that
  \<^verbatim>\<open>compute_meandice\<close> returns is not-a-number, the entry is zero after
  \<^verbatim>\<open>nan_to_num\<close> and stands among the batch times kept-classes entries that are
  averaged, and the result is a finite float: the sum of the entries over their number.
\<close>

theorem absent_class_counts_as_zero:
  assumes "batch target = batch preds" "channels target = 1" "spatial target = spatial preds"
    and "class_labels target (channels preds)"
    and "b < batch preds"
    and "first_kept (channels preds) \<le> c" "c < channels preds"
    and absent_target:
      "\<forall>ix\<in>set (indices (spatial preds)). long (elem target b 0 ix) \<noteq> int c"
    and absent_pred:
      "\<forall>ix\<in>set (indices (spatial preds)). sigmoid (elem preds b c ix) = 0"
  shows "\<exists>y dice.
      one_hot (tmap long target) (channels preds) = Inr y
    \<and> compute_meandice (tmap sigmoid preds) y False = Inr dice
    \<and> fdiv (2 * spatial_sum (tmul y (tmap sigmoid preds)) b c)
         (spatial_sum y b c + spatial_sum (tmap sigmoid preds) b c) = NaN
    \<and> elem dice b (c - first_kept (channels preds)) [] = NaN
    \<and> length (entries (tmap nan_to_num dice))
         = batch preds * (channels preds - first_kept (channels preds))
    \<and> entries (tmap nan_to_num dice)
         ! (b * (channels preds - first_kept (channels preds))
            + (c - first_kept (channels preds))) = 0
    \<and> calculate_dice sigmoid preds target
         = Inr (Fin (sum_list (entries (tmap nan_to_num dice))
                  / real (length (entries (tmap nan_to_num dice)))))"
proof -
  let ?k = "first_kept (channels preds)"
  let ?n = "channels preds - ?k"
  let ?P = "tmap sigmoid preds"
  let ?Y = "scatter_ones (tmap long target) (channels preds)"
  let ?D = "\<lparr>batch = batch preds, channels = ?n, spatial = [],
             elem = (\<lambda>b c ix. dice_at ?P ?Y b (c + ?k))\<rparr>"
  let ?es = "entries (tmap nan_to_num ?D)"
  note dt = dice_tensor(1) [OF assms(1-4)] dice_tensor(2) [OF assms(1-4), where sigmoid = sigmoid]
  have y0: "spatial_sum ?Y b c = 0"
    using absent_target assms(3) by (intro absent_class_sum) simp
  have "map (elem ?P b c) (indices (spatial preds)) = map (\<lambda>ix. 0) (indices (spatial preds))"
    using absent_pred by (intro map_cong) (simp_all add: tmap_def)
  then have "sum_list (map (elem ?P b c) (indices (spatial preds))) = 0"
    by (simp only:) simp
  then have p0: "spatial_sum ?P b c = 0"
    by (simp add: spatial_sum_def tmap_def)
  have "map (\<lambda>ix. elem ?Y b c ix * elem ?P b c ix) (indices (spatial preds))
      = map (\<lambda>ix. 0) (indices (spatial preds))"
    using absent_pred by (intro map_cong) (simp_all add: tmap_def)
  then have "sum_list (map (\<lambda>ix. elem ?Y b c ix * elem ?P b c ix) (indices (spatial preds))) = 0"
    by (simp only:) simp
  then have i0: "spatial_sum (tmul ?Y ?P) b c = 0"
    using assms(3) by (simp add: spatial_sum_def tmul_def scatter_ones_def tmap_def)
  have ratio: "fdiv (2 * spatial_sum (tmul ?Y ?P) b c)
         (spatial_sum ?Y b c + spatial_sum ?P b c) = NaN"
    by (simp add: y0 p0 i0 fdiv_def)
  have nan: "dice_at ?P ?Y b c = NaN"
    by (simp add: dice_at_def y0 Let_def)
  have idx: "c - ?k + ?k = c" "c - ?k < ?n"
    using assms(6,7) by simp_all
  have entry: "elem ?D b (c - ?k) [] = NaN"
    by (simp add: idx nan)
  have es: "?es = concat (map (\<lambda>b. map (\<lambda>c. nan_to_num (dice_at ?P ?Y b (c + ?k))) [0..<?n])
      [0..<batch preds])"
    by (simp add: entries_flat tmap_def [of nan_to_num])
  have len: "length ?es = batch preds * ?n"
    by (simp only: es length_concat_rows)
  have nth: "?es ! (b * ?n + (c - ?k)) = 0"
    using assms(5) idx(2)
    by (simp only: es nth_concat_rows) (simp add: idx nan)
  have pos: "0 < length ?es"
    using assms(5) idx(2) by (simp add: len)
  have "calculate_dice sigmoid preds target = Inr (mean (tmap nan_to_num ?D))"
    by (simp add: calculate_dice_def dt Let_def)
  then have res: "calculate_dice sigmoid preds target
      = Inr (Fin (sum_list ?es / real (length ?es)))"
    using pos by (simp add: mean_def fdiv_def)
  show ?thesis
    using dt ratio entry len nth res by blast
qed

theorem absent_class_counts_as_zero_witness:
  "(\<exists>v. calculate_dice saturating_sigmoid background_logits label_0 = Inr (Fin v))
   \<and> calculate_dice saturating_sigmoid background_logits label_0 = Inr (Fin 0)"
proof -
  have shape: "batch label_0 = batch background_logits" "channels label_0 = 1"
      "spatial label_0 = spatial background_logits"
    by (simp_all add: inputs one_voxel_def)
  have labels: "class_labels label_0 (channels background_logits)"
    by (simp add: class_labels_def inputs one_voxel_def long_def)
  have cls: "(0::nat) < batch background_logits"
      "first_kept (channels background_logits) \<le> 1" "(1::nat) < channels background_logits"
    by (simp_all add: inputs one_voxel_def first_kept_def)
  have absent_target: "\<forall>ix\<in>set (indices (spatial background_logits)).
      long (elem label_0 0 0 ix) \<noteq> int 1"
    by (simp add: inputs one_voxel_def long_def)
  have absent_pred: "\<forall>ix\<in>set (indices (spatial background_logits)).
      saturating_sigmoid (elem background_logits 0 1 ix) = 0"
    by (simp add: inputs one_voxel_def saturating_sigmoid_def)
  have "\<exists>v. calculate_dice saturating_sigmoid background_logits label_0 = Inr (Fin v)"
    using absent_class_counts_as_zero [OF shape labels cls absent_target absent_pred] by blast
  moreover have "calculate_dice saturating_sigmoid background_logits label_0 = Inr (Fin 0)"
    by (simp add: dice_eval tensor_eval inputs)
  ultimately show ?thesis by simp
qed

text \<open>Two predictions of one shape and at least two channels that agree on every
  channel but channel 0 give the same result, a float or an error.\<close>

lemma prediction_channel0_irrelevant:
  assumes "1 < channels preds" and "tshape preds' = tshape preds"
    and agree: "\<forall>b<batch preds. \<forall>c<channels preds. \<forall>ix\<in>set (indices (spatial preds)).
        0 < c \<longrightarrow> elem preds' b c ix = elem preds b c ix"
  shows "calculate_dice sigmoid preds' target = calculate_dice sigmoid preds target"
proof -
  have sh: "batch preds' = batch preds" "channels preds' = channels preds"
      "spatial preds' = spatial preds"
    using assms(2) by (simp_all add: tshape_def)
  let ?p = "drop_channel0 (tmap sigmoid preds)"
  let ?p' = "drop_channel0 (tmap sigmoid preds')"
  have shp: "tshape ?p' = tshape ?p"
    using sh by (simp add: tshape_def drop_channel0_def tmap_def)
  have agree': "\<forall>b<batch ?p. \<forall>c<channels ?p. \<forall>ix\<in>set (indices (spatial ?p)).
      elem ?p' b c ix = elem ?p b c ix"
    using agree by (simp add: drop_channel0_def tmap_def)
  have cm: "compute_meandice (tmap sigmoid q) y False =
      (if tshape (snd (ignore_background (tmap sigmoid q) y))
            \<noteq> tshape (drop_channel0 (tmap sigmoid q)) then Inl ValueError
       else Inr \<lparr>batch = batch (drop_channel0 (tmap sigmoid q)),
              channels = channels (drop_channel0 (tmap sigmoid q)), spatial = [],
              elem = (\<lambda>b c ix. dice_at (drop_channel0 (tmap sigmoid q))
                (snd (ignore_background (tmap sigmoid q) y)) b c)\<rparr>)"
    if "1 < channels q" for q y
    using that
    by (simp add: compute_meandice_def ignore_background_def Let_def tmap_def [of sigmoid])
  have snd_eq: "snd (ignore_background (tmap sigmoid preds') y)
      = snd (ignore_background (tmap sigmoid preds) y)" for y
    by (simp add: ignore_background_def Let_def)
  have same: "(case compute_meandice (tmap sigmoid preds') y False of
        Inl e \<Rightarrow> Inl e | Inr d \<Rightarrow> Inr (mean (tmap nan_to_num d)))
      = (case compute_meandice (tmap sigmoid preds) y False of
        Inl e \<Rightarrow> Inl e | Inr d \<Rightarrow> Inr (mean (tmap nan_to_num d)))" for y
  proof -
    define y' where "y' = snd (ignore_background (tmap sigmoid preds) y)"
    show ?thesis
    proof (cases "tshape y' = tshape ?p")
      case False
      then show ?thesis
        using assms(1) sh(2) shp
        by (simp add: cm snd_eq flip: y'_def)
    next
      case True
      from dice_mean_cong [OF shp True agree'] True show ?thesis
        using assms(1) sh(2) shp
        by (simp add: cm snd_eq flip: y'_def)
    qed
  qed
  show ?thesis
    by (cases "one_hot (tmap long target) (channels preds)")
      (simp_all add: calculate_dice_def Let_def sh(2) same)
qed

lemma calculate_dice_returns:
  assumes "calculate_dice sigmoid preds target = Inr r" "1 < channels preds"
  shows "batch target = batch preds" "channels target = 1" "spatial target = spatial preds"
    "class_labels target (channels preds)"
proof -
  obtain y where y: "one_hot (tmap long target) (channels preds) = Inr y"
    using assms(1) by (auto simp: calculate_dice_def Let_def split: sum.splits)
  then have ch: "channels target = 1" and lab: "class_labels target (channels preds)"
    and yy: "y = scatter_ones (tmap long target) (channels preds)"
    by (auto simp: one_hot_def class_labels_def list_all_iff tmap_def split: if_splits)
  obtain d where "compute_meandice (tmap sigmoid preds) y False = Inr d"
    using assms(1) y by (auto simp: calculate_dice_def Let_def split: sum.splits)
  then have "tshape (drop_channel0 y) = tshape (drop_channel0 (tmap sigmoid preds))"
    using assms(2) yy
    by (auto simp: compute_meandice_def ignore_background_def Let_def scatter_ones_def
        tmap_def split: if_splits)
  then have "batch target = batch preds" "spatial target = spatial preds"
    by (simp_all add: yy tshape_def drop_channel0_def scatter_ones_def tmap_def)
  with ch lab show "batch target = batch preds" "channels target = 1"
    "spatial target = spatial preds" "class_labels target (channels preds)"
    by simp_all
qed

lemma foreground_entry_dice_at:
  assumes "spatial target = spatial preds"
  shows "dice_at (tmap sigmoid preds) (scatter_ones (tmap long target) n) b c
       = foreground_entry sigmoid preds target b c"
  using assms
  by (simp add: dice_at_def foreground_entry_def spatial_sum_def tmul_def scatter_ones_def
      tmap_def Let_def)

lemma dice_at_with_channel0:
  "0 < c \<Longrightarrow> dice_at (with_channel0 f p) (with_channel0 g y) b c = dice_at p y b c"
  by (simp add: dice_at_def spatial_sum_def tmul_def with_channel0_def)

text \<open>
  Claim C3, as the code has it. For a prediction of at least two channels, a mean that
  \<open>calculate_dice\<close> returns is the average of the foreground entries only: the Dice
  values of the classes 1 to channels - 1 of every sample, batch times (channels - 1)
  of them. The background channel has no part in it, whatever its overlap is: the mean
  is the same with any other values on channel 0 of the activated prediction and of the
  one-hot target, and the same for every prediction that differs on channel 0 only.
\<close>

theorem mean_over_foreground_channels:
  assumes two: "1 < channels preds"
    and ret: "calculate_dice sigmoid preds target = Inr r"
  shows "r = fdiv (sum_list (foreground_dice sigmoid preds target))
               (real (batch preds * (channels preds - 1)))
    \<and> length (foreground_dice sigmoid preds target) = batch preds * (channels preds - 1)
    \<and> (\<forall>f g. mean_dice (compute_meandice
            (with_channel0 f (tmap sigmoid preds))
            (with_channel0 g (scatter_ones (tmap long target) (channels preds))) False)
          = Inr r)
    \<and> (\<forall>preds'. tshape preds' = tshape preds
          \<and> (\<forall>b<batch preds. \<forall>c<channels preds. \<forall>ix\<in>set (indices (spatial preds)).
                0 < c \<longrightarrow> elem preds' b c ix = elem preds b c ix)
          \<longrightarrow> calculate_dice sigmoid preds' target = Inr r)"
proof -
  let ?C = "channels preds"
  let ?P = "tmap sigmoid preds"
  let ?Y = "scatter_ones (tmap long target) ?C"
  note wf = calculate_dice_returns [OF ret two]
  have kept: "first_kept ?C = 1"
    using two by (simp add: first_kept_def)
  have fg: "map nan_to_num (dice_values sigmoid preds target)
      = foreground_dice sigmoid preds target"
    by (simp add: dice_values_def foreground_dice_def kept map_concat comp_def
        foreground_entry_dice_at [OF wf(3)])
  have len: "length (foreground_dice sigmoid preds target) = batch preds * (?C - 1)"
    using length_dice_values [of sigmoid preds target] kept
    by (simp flip: fg)
  have r: "r = fdiv (sum_list (foreground_dice sigmoid preds target))
               (real (batch preds * (?C - 1)))"
    using calculate_dice_values [OF wf, of sigmoid] ret len
    by (simp add: fg flip: length_map [of nan_to_num "dice_values sigmoid preds target"])
  have cm: "compute_meandice ?P ?Y False =
         Inr \<lparr>batch = batch preds, channels = ?C - first_kept ?C, spatial = [],
              elem = (\<lambda>b c ix. dice_at ?P ?Y b (c + first_kept ?C))\<rparr>"
    by (rule dice_tensor(2) [OF wf])
  have base: "mean_dice (compute_meandice ?P ?Y False) = Inr r"
    using ret by (simp add: calculate_dice_def dice_tensor(1) [OF wf] cm mean_dice_def Let_def)
  have any0: "mean_dice (compute_meandice (with_channel0 f ?P) (with_channel0 g ?Y) False)
      = Inr r" for f g
  proof -
    have sh: "tshape (with_channel0 g ?Y) = tshape (with_channel0 f ?P)"
      using wf(1,3) by (simp add: tshape_def with_channel0_def scatter_ones_def tmap_def)
    have sel: "batch (with_channel0 f ?P) = batch preds" "channels (with_channel0 f ?P) = ?C"
      by (simp_all add: with_channel0_def tmap_def)
    have "compute_meandice (with_channel0 f ?P) (with_channel0 g ?Y) False
        = compute_meandice ?P ?Y False"
      by (simp add: compute_meandice_kept [OF sh] cm sel kept dice_at_with_channel0)
    then show ?thesis
      using base by simp
  qed
  have pred0: "calculate_dice sigmoid preds' target = Inr r"
    if "tshape preds' = tshape preds"
      and "\<forall>b<batch preds. \<forall>c<channels preds. \<forall>ix\<in>set (indices (spatial preds)).
                0 < c \<longrightarrow> elem preds' b c ix = elem preds b c ix" for preds'
    using prediction_channel0_irrelevant [OF two that] ret by simp
  show ?thesis
    using r len any0 pred0 by blast
qed

theorem mean_over_foreground_channels_witness:
  "calculate_dice saturating_sigmoid two_voxel_logits_mixed two_voxel_labels = Inr (Fin (2 / 3))
   \<and> Fin (2 / 3) = fdiv (sum_list
         (foreground_dice saturating_sigmoid two_voxel_logits_mixed two_voxel_labels))
       (real (batch two_voxel_logits_mixed * (channels two_voxel_logits_mixed - 1)))
   \<and> foreground_dice saturating_sigmoid two_voxel_logits_mixed two_voxel_labels = [2 / 3]
   \<and> calculate_dice saturating_sigmoid two_voxel_logits_100 two_voxel_labels
       = Inr (Fin (2 / 3))"
proof -
  have two: "1 < channels two_voxel_logits_mixed"
    by (simp add: two_voxel_logits_mixed_def)
  have ret: "calculate_dice saturating_sigmoid two_voxel_logits_mixed two_voxel_labels
      = Inr (Fin (2 / 3))"
    by (simp add: dice_eval tensor_eval inputs Let_def
        upt_conv_Cons numeral_2_eq_2)
  have fgd: "foreground_dice saturating_sigmoid two_voxel_logits_mixed two_voxel_labels
      = [2 / 3]"
    by (simp add: foreground_dice_def foreground_entry_def tensor_eval inputs
        Let_def upt_conv_Cons numeral_2_eq_2)
  have shape: "tshape two_voxel_logits_100 = tshape two_voxel_logits_mixed"
    by (simp add: tshape_def two_voxel_logits_100_def two_voxel_logits_mixed_def)
  have agree: "\<forall>b<batch two_voxel_logits_mixed. \<forall>c<channels two_voxel_logits_mixed.
      \<forall>ix\<in>set (indices (spatial two_voxel_logits_mixed)).
         0 < c \<longrightarrow> elem two_voxel_logits_100 b c ix = elem two_voxel_logits_mixed b c ix"
    by (simp add: two_voxel_logits_100_def two_voxel_logits_mixed_def)
  from mean_over_foreground_channels [OF two ret] shape agree ret fgd show ?thesis
    by blast
qed

text \<open>
  Claim C3 as stated fails for a prediction of one channel, which
  \<^verbatim>\<open>ignore_background\<close> keeps: there is no foreground entry, and two predictions
  that differ in channel 0 only give two different means.
\<close>

theorem single_channel_contributes_counterexample:
  "calculate_dice saturating_sigmoid single_channel_logit_0 label_0 = Inr (Fin (2 / 3))
   \<and> calculate_dice saturating_sigmoid single_channel_logit_100 label_0 = Inr (Fin 1)
   \<and> foreground_dice saturating_sigmoid single_channel_logit_0 label_0 = []"
  by (simp add: dice_eval tensor_eval inputs foreground_dice_def)

text \<open>
  Claim C4, as the code has it. When the activated prediction equals the one-hot target
  at every index, the batch is not empty, and every class with an entry in the Dice
  tensor occurs in the target of every sample, \<open>calculate_dice\<close> returns 1.
\<close>

theorem perfect_prediction_dice_one:
  assumes "batch target = batch preds" "channels target = 1" "spatial target = spatial preds"
    and "0 < batch preds" "0 < channels preds"
    and "class_labels target (channels preds)"
    and perfect: "\<forall>b<batch preds. \<forall>c<channels preds. \<forall>ix\<in>set (indices (spatial preds)).
        sigmoid (elem preds b c ix) = (if long (elem target b 0 ix) = int c then 1 else 0)"
    and present: "\<forall>b<batch preds. \<forall>c<channels preds. first_kept (channels preds) \<le> c \<longrightarrow>
        (\<exists>ix\<in>set (indices (spatial preds)). long (elem target b 0 ix) = int c)"
  shows "calculate_dice sigmoid preds target = Inr (Fin 1)"
proof -
  let ?dv = "dice_values sigmoid preds target"
  have ones: "d = Fin 1" if "d \<in> set ?dv" for d
  proof -
    from that obtain b c where bc: "b < batch preds" "first_kept (channels preds) \<le> c"
        "c < channels preds"
      and d: "d = dice_at (tmap sigmoid preds)
        (scatter_ones (tmap long target) (channels preds)) b c"
      by (auto simp: dice_values_def)
    show ?thesis
      unfolding d using assms(3) perfect present bc by (intro perfect_dice) auto
  qed
  have "map nan_to_num ?dv = map (\<lambda>d. 1) ?dv"
    by (rule map_cong) (auto dest: ones)
  then have sum: "sum_list (map nan_to_num ?dv) = real (length ?dv)"
    by (simp only:) (simp add: sum_list_triv)
  have "0 < channels preds - first_kept (channels preds)"
    using assms(5) by (simp add: first_kept_def)
  then have pos: "0 < length ?dv"
    using assms(4) by (simp add: length_dice_values)
  show ?thesis
    using pos by (simp add: calculate_dice_values [OF assms(1,2,3,6)] sum fdiv_def)
qed

theorem perfect_prediction_dice_one_witness:
  "calculate_dice saturating_sigmoid foreground_logits label_1 = Inr (Fin 1)"
proof -
  have shape: "batch label_1 = batch foreground_logits" "channels label_1 = 1"
      "spatial label_1 = spatial foreground_logits"
      "0 < batch foreground_logits" "0 < channels foreground_logits"
    by (simp_all add: inputs one_voxel_def)
  have labels: "class_labels label_1 (channels foreground_logits)"
    by (simp add: class_labels_def inputs one_voxel_def long_def)
  have perfect: "\<forall>b<batch foreground_logits. \<forall>c<channels foreground_logits.
      \<forall>ix\<in>set (indices (spatial foreground_logits)).
        saturating_sigmoid (elem foreground_logits b c ix)
          = (if long (elem label_1 b 0 ix) = int c then 1 else 0)"
    by (simp add: inputs one_voxel_def long_def saturating_sigmoid_def)
  have present: "\<forall>b<batch foreground_logits. \<forall>c<channels foreground_logits.
      first_kept (channels foreground_logits) \<le> c \<longrightarrow>
        (\<exists>ix\<in>set (indices (spatial foreground_logits)). long (elem label_1 b 0 ix) = int c)"
    by (auto simp: inputs one_voxel_def long_def first_kept_def)
  show ?thesis
    by (rule perfect_prediction_dice_one [OF shape labels perfect present])
qed

text \<open>
  Claim C4 as stated fails where a foreground class occurs in no voxel of a sample: its
  Dice value is not-a-number, which \<^verbatim>\<open>nan_to_num\<close> turns into 0. Here the activated
  prediction is the one-hot target of a background voxel, and the mean is 0.
\<close>

theorem perfect_prediction_absent_class_counterexample:
  "one_hot (tmap long label_0) (channels background_logits)
     = Inr (tmap saturating_sigmoid background_logits)
   \<and> calculate_dice saturating_sigmoid background_logits label_0 = Inr (Fin 0)"
  by (auto simp: dice_eval tensor_eval inputs fun_eq_iff)

section \<open>The steps\<close>

lemmas step_eval = training_step_def validation_step_def log_metrics_def log_call_def
  returned_def logged_def init_def test_env_def test_args_def zero_net_def test_batch_def
  bad_batch_def one_voxel_image_def unsqueeze0_def

lemma init_keys: "img_key (init env args) = ''image''" "lbl_key (init env args) = ''mask''"
  by (simp_all add: init_def Let_def split: prod.split)

lemma test_dice:
  "calculate_dice saturating_sigmoid
     (apply_net (model (init test_env test_args)) (unsqueeze0 one_voxel_image)) label_1
   = Inr (Fin (2 / 3))"
  by (simp add: step_eval dice_eval tensor_eval inputs Let_def)

text \<open>
  Claim C5. \<open>training_step\<close> and \<open>validation_step\<close> are one computation, the step
  of the specification, at the prefixes \<^verbatim>\<open>train\<close> and \<^verbatim>\<open>val\<close>: the same call of the
  model, the same loss, the same Dice metric on the same prediction and label, and the
  same returned record (or the same error); only the names of the two log entries
  differ, by their prefix.
\<close>

theorem steps_differ_in_prefix_only:
  "training_step sigmoid self batch_dict i logs = spec_step ''train'' sigmoid self batch_dict logs
   \<and> validation_step sigmoid self batch_dict j logs
       = spec_step ''val'' sigmoid self batch_dict logs
   \<and> returned (training_step sigmoid self batch_dict i logs)
       = returned (validation_step sigmoid self batch_dict j logs)"
  by (simp add: training_step_def validation_step_def spec_step_def log_metrics_def
      log_call_def returned_def Let_def split: option.split sum.split)

text \<open>
  Claim C6, as the code has it. For a batch with the keys \<^verbatim>\<open>image\<close> and \<^verbatim>\<open>mask\<close> on
  which the Dice metric of the model output raises nothing, both steps return the same
  record, whose keys are exactly \<^verbatim>\<open>loss\<close>, \<^verbatim>\<open>pred\<close> and \<^verbatim>\<open>label\<close>: the loss of the
  model output and the mask, the raw model output, and the mask.
\<close>

theorem step_returns_record:
  assumes "batch_dict ''image'' = Some img" "batch_dict ''mask'' = Some label"
    and "calculate_dice sigmoid (apply_net (model (init env args)) img) label = Inr d"
  shows "\<exists>r. returned (training_step sigmoid (init env args) batch_dict i logs) = Inr r
      \<and> returned (validation_step sigmoid (init env args) batch_dict j logs) = Inr r
      \<and> dom r = {''loss'', ''pred'', ''label''}
      \<and> r ''loss''
          = Some (LossVal (loss (init env args) (apply_net (model (init env args)) img) label))
      \<and> r ''pred'' = Some (TensorVal (apply_net (model (init env args)) img))
      \<and> r ''label'' = Some (TensorVal label)"
  using assms
  by (auto simp: training_step_def validation_step_def log_metrics_def returned_def
      init_keys Let_def)

theorem step_returns_record_witness:
  "\<exists>r. returned (training_step saturating_sigmoid (init test_env test_args) test_batch 0 [])
        = Inr r
      \<and> returned (validation_step saturating_sigmoid (init test_env test_args) test_batch 0 [])
        = Inr r
      \<and> dom r = {''loss'', ''pred'', ''label''}
      \<and> r ''loss'' = Some (LossVal 0)"
proof -
  have keys: "test_batch ''image'' = Some (unsqueeze0 one_voxel_image)"
      "test_batch ''mask'' = Some label_1"
    by (simp_all add: test_batch_def)
  have l: "loss (init test_env test_args)
      (apply_net (model (init test_env test_args)) (unsqueeze0 one_voxel_image)) label_1 = 0"
    by (simp add: init_def test_env_def Let_def)
  from step_returns_record [OF keys test_dice, of 0 "[]" 0] show ?thesis
    by (auto simp: l)
qed

text \<open>
  Claim C6 as stated fails on the name of a key: the record has \<^verbatim>\<open>pred\<close>, not
  \<^verbatim>\<open>prediction\<close>. And a batch with both keys whose mask holds a label that is no
  class index of the prediction gets no record: the metric raises inside the step.
\<close>

theorem step_record_keys_counterexample:
  "map_sum id dom (returned
       (training_step saturating_sigmoid (init test_env test_args) test_batch 0 []))
     = Inr {''loss'', ''pred'', ''label''}
   \<and> ''prediction'' \<notin> {''loss'', ''pred'', ''label''}
   \<and> training_step saturating_sigmoid (init test_env test_args) bad_batch 0 []
     = Inl RuntimeError"
proof -
  have bad: "calculate_dice saturating_sigmoid
     (apply_net (model (init test_env test_args)) (unsqueeze0 one_voxel_image)) label_5
     = Inl RuntimeError"
    by (simp add: step_eval dice_eval tensor_eval inputs Let_def)
  have 1: "training_step saturating_sigmoid (init test_env test_args) bad_batch 0 []
     = Inl RuntimeError"
    by (simp add: training_step_def log_metrics_def init_keys bad_batch_def bad Let_def)
  have 2: "map_sum id dom (returned
       (training_step saturating_sigmoid (init test_env test_args) test_batch 0 []))
     = Inr {''loss'', ''pred'', ''label''}"
    by (auto simp: training_step_def log_metrics_def init_keys test_batch_def test_dice
        returned_def Let_def)
  show ?thesis
    using 1 2 by simp
qed



section \<open>The configuration of the module\<close>

text \<open>
  Claim C7. For a module constructed with any arguments, \<open>configure_optimizers\<close>
  returns the Adam optimizer over the parameters of the network at the learning rate
  given to the constructor, and a reduce-on-plateau scheduler of that optimizer with
  factor 0.5, patience 5, mode \<^verbatim>\<open>min\<close> and threshold 0.001, monitoring \<^verbatim>\<open>val_loss\<close>.
\<close>

theorem configure_optimizers_record:
  "configure_optimizers (init env args) =
     \<lparr>optimizer = Adam (net_parameters (DenseVNet env (in_channels args) (out_channels args)))
                   (learning_rate_arg args),
      lr_scheduler =
        \<lparr>scheduler =
           \<lparr>sched_optimizer =
              Adam (net_parameters (DenseVNet env (in_channels args) (out_channels args)))
                (learning_rate_arg args),
            factor = 1 / 2, patience = 5, mode = ''min'', threshold = 1 / 1000,
            verbose = True\<rparr>,
         monitor = ''val_loss''\<rparr>\<rparr>"
  by (simp add: configure_optimizers_def init_def parameters_def Let_def split: prod.split)

lemma map_label_brats: "map_label [1, 2, 4] [1, 2, 3] v = (if v = 4 then 3 else v)"
  by (simp add: map_label_def)

lemma load_transform_init:
  "load_transform (init env args)
     = get_load_transforms ''image'' ''mask'' [1, 2, 4] [1, 2, 3] (spatial_size args)"
  by (simp add: init_def Let_def split: prod.split)

lemma voxels_map: "voxels (map (map (map f)) vol) = f ` voxels vol"
  unfolding voxels_def by (induction vol) (simp_all add: image_Un image_UN)

text \<open>
  Claim C8. For a label volume that holds only values of {1, 2, 4}, the mask loaded with
  the transform pipeline of a constructed module holds only values of {1, 2, 3}: 4 has
  become 3 at every voxel, 1 and 2 are unchanged.
\<close>

theorem load_mask_remaps_labels:
  assumes "voxels vol \<subseteq> {1, 2, 4}"
  shows "voxels (load_mask (load_transform (init env args)) vol) \<subseteq> {1, 2, 3}
    \<and> load_mask (load_transform (init env args)) vol
        = map (map (map (\<lambda>v. if v = 4 then 3 else v))) vol"
proof -
  have eq: "load_mask (load_transform (init env args)) vol
        = map (map (map (\<lambda>v. if v = 4 then 3 else v))) vol"
    by (simp add: load_mask_def load_transform_init get_load_transforms_def map_label_brats)
  have "voxels (map (map (map (\<lambda>v. if v = 4 then 3 else v))) vol)
      = (\<lambda>v. if v = 4 then 3 else v) ` voxels vol"
    by (rule voxels_map)
  then show ?thesis
    using assms eq by auto
qed

theorem load_mask_remaps_labels_witness:
  "voxels (load_mask (load_transform (init test_env test_args)) [[[1, 2, 4], [4, 4, 1]]])
     \<subseteq> {1, 2, 3}
   \<and> load_mask (load_transform (init test_env test_args)) [[[1, 2, 4], [4, 4, 1]]]
       = [[[1, 2, 3], [3, 3, 1]]]"
proof -
  have "voxels [[[1, 2, 4], [4, 4, 1]]] \<subseteq> {1, 2, 4}"
    by (simp add: voxels_def)
  from load_mask_remaps_labels [OF this, of test_env test_args] show ?thesis
    by (simp add: voxels_def)
qed

text \<open>
  Claim C9. Whatever the arguments of the constructor are (the flag
  \<^verbatim>\<open>shuffle_dataset\<close> among them), \<open>train_dataloader\<close> builds its loader with
  shuffling on and \<open>val_dataloader\<close> with shuffling off. Each call constructs a new
  dataset from the stored paths and the stored pipeline, at an address the store did
  not hold, so that a second call gives another dataset than the first.
\<close>

theorem dataloaders_shuffle_and_fresh_dataset:
  "shuffle (fst (train_dataloader (init env args) st)) = True
   \<and> shuffle (fst (val_dataloader (init env args) st)) = False
   \<and> dataset (fst (train_dataloader (init env args) st)) = length st
   \<and> snd (train_dataloader (init env args) st)
       = st @ [\<lparr>image_mask_paths = train_paths (init env args),
                 load_transforms = load_transform (init env args)\<rparr>]
   \<and> dataset (fst (val_dataloader (init env args) st)) = length st
   \<and> snd (val_dataloader (init env args) st)
       = st @ [\<lparr>image_mask_paths = val_paths (init env args),
                 load_transforms = load_transform (init env args)\<rparr>]
   \<and> dataset (fst (train_dataloader (init env args)
         (snd (train_dataloader (init env args) st))))
       \<noteq> dataset (fst (train_dataloader (init env args) st))
   \<and> dataset (fst (val_dataloader (init env args)
         (snd (val_dataloader (init env args) st))))
       \<noteq> dataset (fst (val_dataloader (init env args) st))"
  by (simp add: train_dataloader_def val_dataloader_def BrainSegDataset_def
      create_data_loader_def Let_def)

end
